theory Spec2Isabelle
  imports Complex_Main
begin

section \<open>Python values, errors and containers\<close>

text \<open>
  Floats are idealised as \<^typ>\<open>real\<close>, Python integers are \<^typ>\<open>int\<close>, and every
  exception the modelled code can raise is a value of \<open>py_error\<close>. A result is
  \<open>py_error + 'a\<close>, with \<open>Inl\<close> for a raised exception.
\<close>

datatype py_error =
    TypeError string
  | KeyError string
  | IndexError
  | ValueError
  | ZeroDivisionError
  | NotImplementedError string
  | PyException string

text \<open>\<open>d[k]\<close> on a dictionary: a missing key raises \<open>KeyError\<close>.\<close>

definition getitem :: "(string \<rightharpoonup> 'a) \<Rightarrow> string \<Rightarrow> py_error + 'a" where
  "getitem d k = (case d k of None \<Rightarrow> Inl (KeyError k) | Some v \<Rightarrow> Inr v)"

text \<open>\<open>np.full(n, v)\<close> and \<open>np.zeros(n)\<close>: a negative dimension raises \<open>ValueError\<close>.\<close>

definition np_full :: "int \<Rightarrow> real \<Rightarrow> py_error + real list" where
  "np_full n v = (if n < 0 then Inl ValueError else Inr (replicate (nat n) v))"

definition np_zeros :: "int \<Rightarrow> py_error + real list" where
  "np_zeros n = (if n < 0 then Inl ValueError else Inr (replicate (nat n) 0))"

text \<open>\<open>a // b\<close> on numbers: the floor of the quotient, \<open>ZeroDivisionError\<close> for \<open>b = 0\<close>.\<close>

definition py_floordiv :: "real \<Rightarrow> real \<Rightarrow> py_error + real" where
  "py_floordiv a b = (if b = 0 then Inl ZeroDivisionError else Inr (of_int \<lfloor>a / b\<rfloor>))"

section \<open>The budget optimizer (budget\_optimizer.py)\<close>

text \<open>
  The adstock and saturation transformations are collaborators that live outside the
  modelled files. The optimizer uses only their \<open>function\<close> method, called with a series
  and the channel's keyword parameters, and the adstock's \<open>l_max\<close> attribute, so they are
  taken as parameters: a transformation's function is a pure function from a parameter
  dictionary and a series to a series.

  \<open>parameters\<close> is a Python dictionary whose iteration order is used, so it is an
  association list (of distinct keys, as the keys of a dictionary are); the inner
  dictionaries are only looked up, so they are maps.
\<close>

type_synonym params = "string \<rightharpoonup> real"
type_synonym channel_params = "string \<rightharpoonup> params"
type_synonym transform_function = "params \<Rightarrow> real list \<Rightarrow> real list"

record adstock_transformation =
  l_max :: int
  adstock_function :: transform_function

record saturation_transformation =
  saturation_function :: transform_function

record budget_optimizer =
  adstock :: adstock_transformation
  saturation :: saturation_transformation
  num_days :: int
  parameters :: "(string \<times> channel_params) list"
  adstock_first :: bool

text \<open>
  Lines 75 to 79 of \<open>objective\<close>: the pair \<open>(first_transform, second_transform)\<close>.
\<close>

definition first_transform :: "budget_optimizer \<Rightarrow> transform_function" where
  "first_transform bo =
     (if adstock_first bo then adstock_function (adstock bo)
      else saturation_function (saturation bo))"

definition second_transform :: "budget_optimizer \<Rightarrow> transform_function" where
  "second_transform bo =
     (if adstock_first bo then saturation_function (saturation bo)
      else adstock_function (adstock bo))"

text \<open>
  The body of the loop of \<open>objective\<close> after \<open>budget = budgets[idx]\<close> (lines 82 to 98):
  the value \<open>np.sum(transformed_spend)\<close> that one channel adds to \<open>total_response\<close>.
\<close>

definition channel_response :: "budget_optimizer \<Rightarrow> channel_params \<Rightarrow> real \<Rightarrow> py_error + real" where
  "channel_response bo params budget =
     (case getitem params (if adstock_first bo then ''adstock_params'' else ''saturation_params'') of
        Inl e \<Rightarrow> Inl e
      | Inr first_params \<Rightarrow>
     (case getitem params (if adstock_first bo then ''saturation_params'' else ''adstock_params'') of
        Inl e \<Rightarrow> Inl e
      | Inr second_params \<Rightarrow>
     (case np_full (num_days bo) budget of
        Inl e \<Rightarrow> Inl e
      | Inr spend \<Rightarrow>
     (case np_zeros (l_max (adstock bo)) of
        Inl e \<Rightarrow> Inl e
      | Inr zeros \<Rightarrow>
         (let spend_extended = spend @ zeros;
              transformed_spend =
                second_transform bo second_params (first_transform bo first_params spend_extended)
          in Inr (sum_list transformed_spend))))))"

text \<open>
  The loop \<open>for idx, (_channel, params) in enumerate(self.parameters.items())\<close>, with the
  index and the accumulator \<open>total_response\<close> as arguments. \<open>budgets[idx]\<close> raises
  \<open>IndexError\<close> when the vector is shorter than the channel list.
\<close>

fun objective_loop ::
  "budget_optimizer \<Rightarrow> real list \<Rightarrow> nat \<Rightarrow> (string \<times> channel_params) list \<Rightarrow> real \<Rightarrow> py_error + real"
where
  "objective_loop bo budgets idx [] total_response = Inr total_response"
| "objective_loop bo budgets idx ((channel, params) # rest) total_response =
     (if idx < length budgets then
        (case channel_response bo params (budgets ! idx) of
           Inl e \<Rightarrow> Inl e
         | Inr r \<Rightarrow> objective_loop bo budgets (Suc idx) rest (total_response + r))
      else Inl IndexError)"

definition objective :: "budget_optimizer \<Rightarrow> real list \<Rightarrow> py_error + real" where
  "objective bo budgets =
     (case objective_loop bo budgets 0 (parameters bo) 0 of
        Inl e \<Rightarrow> Inl e
      | Inr total_response \<Rightarrow> Inr (- total_response))"

text \<open>
  \<open>allocate_budget\<close>. An optional argument is \<open>None\<close>, a dictionary, or some other
  object (which fails \<open>isinstance(_, dict)\<close>). \<open>warnings.warn\<close> is an effect: the
  function returns the list of warnings it has emitted, in order, beside its result,
  also when it raises. \<open>scipy.optimize.minimize\<close> is an external solver, taken as a
  parameter \<open>minimize\<close>: it receives the objective and the keyword arguments of the
  call, and returns an \<open>OptimizeResult\<close> (or lets an exception through).
\<close>

datatype 'a py_arg = NoneArg | DictArg 'a | NonDictArg

record constraint_dict =
  ctype :: string
  cfun :: "real list \<Rightarrow> real"

record minimize_options =
  ftol :: real
  maxiter :: int

record minimize_args =
  arg_x0 :: "real list"
  arg_bounds :: "(real \<times> real) list"
  arg_constraints :: constraint_dict
  arg_method :: string
  arg_options :: minimize_options

record optimize_result =
  res_success :: bool
  res_x :: "real list"
  res_fun :: real
  res_message :: string

type_synonym solver = "(real list \<Rightarrow> py_error + real) \<Rightarrow> minimize_args \<Rightarrow> py_error + optimize_result"

definition bounds_warning :: string where
  "bounds_warning =
     ''No budget bounds provided. Using default bounds (0, total_budget) for each channel.''"

definition constraint_warning :: string where
  "constraint_warning =
     ''Using default equaliy constraint: The sum of all budgets should be equal to the total budget.''"

text \<open>
  Lines 138 to 171 of \<open>allocate_budget\<close>: everything up to the call of the solver. The
  result is the warnings emitted and either the exception raised or the arguments the
  solver is about to be called with.
\<close>

definition allocate_budget_setup ::
  "budget_optimizer \<Rightarrow> real \<Rightarrow> (string \<rightharpoonup> real \<times> real) py_arg \<Rightarrow> constraint_dict py_arg
     \<Rightarrow> string list \<times> (py_error + minimize_args)"
where
  "allocate_budget_setup bo total_budget budget_bounds custom_constraints =
     (case (case budget_bounds of
              NoneArg \<Rightarrow>
                ([bounds_warning],
                 Inr (map_of (map (\<lambda>(channel, _). (channel, (0, total_budget))) (parameters bo))))
            | DictArg d \<Rightarrow> ([], Inr d)
            | NonDictArg \<Rightarrow> ([], Inl (TypeError ''`budget_bounds` should be a dictionary.''))) of
        (w1, Inl e) \<Rightarrow> (w1, Inl e)
      | (w1, Inr budget_bounds') \<Rightarrow>
     (case (case custom_constraints of
              NoneArg \<Rightarrow>
                ([constraint_warning],
                 Inr \<lparr>ctype = ''eq'', cfun = (\<lambda>x. sum_list x - total_budget)\<rparr>)
            | DictArg c \<Rightarrow> ([], Inr c)
            | NonDictArg \<Rightarrow> ([], Inl (TypeError ''`custom_constraints` should be a dictionary.''))) of
        (w2, Inl e) \<Rightarrow> (w1 @ w2, Inl e)
      | (w2, Inr constraints) \<Rightarrow>
     (let num_channels = length (map fst (parameters bo)) in
      case py_floordiv total_budget (real num_channels) of
        Inl e \<Rightarrow> (w1 @ w2, Inl e)
      | Inr share \<Rightarrow>
         (let initial_guess = replicate num_channels share;
              bounds =
                map (\<lambda>(channel, _).
                       case budget_bounds' channel of
                         Some (lo, hi) \<Rightarrow> (lo, hi)
                       | None \<Rightarrow> (0, total_budget))
                    (parameters bo)
          in (w1 @ w2,
              Inr \<lparr>arg_x0 = initial_guess, arg_bounds = bounds, arg_constraints = constraints,
                   arg_method = ''SLSQP'',
                   arg_options = \<lparr>ftol = 1 / 10 ^ 9, maxiter = 1000\<rparr>\<rparr>)))))"

text \<open>
  The whole of \<open>allocate_budget\<close>: the set-up, the call of the solver on
  \<open>self.objective\<close>, and lines 180 to 187. The returned dictionary is built from
  \<open>zip(self.parameters.keys(), result.x)\<close>, so it is the association list of that zip.
\<close>

definition allocate_budget ::
  "budget_optimizer \<Rightarrow> solver \<Rightarrow> real \<Rightarrow> (string \<rightharpoonup> real \<times> real) py_arg \<Rightarrow> constraint_dict py_arg
     \<Rightarrow> string list \<times> (py_error + (string \<times> real) list \<times> real)"
where
  "allocate_budget bo minimize total_budget budget_bounds custom_constraints =
     (case allocate_budget_setup bo total_budget budget_bounds custom_constraints of
        (w, Inl e) \<Rightarrow> (w, Inl e)
      | (w, Inr args) \<Rightarrow>
         (case minimize (objective bo) args of
            Inl e \<Rightarrow> (w, Inl e)
          | Inr result \<Rightarrow>
             if res_success result then
               (let optimal_budgets = zip (map fst (parameters bo)) (res_x result)
                in (w, Inr (optimal_budgets, - res_fun result)))
             else (w, Inl (PyException (''Optimization failed: '' @ res_message result)))))"

section \<open>The adstock components (lagging.py)\<close>

text \<open>
  Configuration dictionaries hold nested Python values. Only membership, lookup and the
  merge \<open>{**a, **b}\<close> are used, so a configuration is a map, and the merge is \<open>a ++ b\<close>
  (the entries of \<open>b\<close> win).
\<close>

datatype py_value =
    PyInt int
  | PyFloat real
  | PyStr string
  | PyDict "(string \<times> py_value) list"

type_synonym model_config = "string \<rightharpoonup> py_value"

datatype lagging_class =
    BaseFunction
  | GeometricAdstockComponent
  | WeibullPDFAdstockComponent
  | WeibullCDFAdstockComponent

fun REQUIRED_KEYS :: "lagging_class \<Rightarrow> string list" where
  "REQUIRED_KEYS BaseFunction = []"
| "REQUIRED_KEYS GeometricAdstockComponent = [''adstock_alpha'']"
| "REQUIRED_KEYS WeibullPDFAdstockComponent = [''adstock_lambda'', ''adstock_shape'']"
| "REQUIRED_KEYS WeibullCDFAdstockComponent = [''adstock_lambda'', ''adstock_shape'']"

definition beta_1_3 :: py_value where
  "beta_1_3 =
     PyDict [(''dist'', PyStr ''Beta''),
             (''kwargs'', PyDict [(''alpha'', PyInt 1), (''beta'', PyInt 3)])]"

fun default_lagging_config :: "lagging_class \<Rightarrow> py_error + model_config" where
  "default_lagging_config BaseFunction =
     Inl (NotImplementedError ''Subclasses should implement this method.'')"
| "default_lagging_config GeometricAdstockComponent =
     Inr [''adstock_alpha'' \<mapsto> beta_1_3]"
| "default_lagging_config WeibullPDFAdstockComponent =
     Inr [''adstock_lambda'' \<mapsto> beta_1_3, ''adstock_shape'' \<mapsto> beta_1_3]"
| "default_lagging_config WeibullCDFAdstockComponent =
     Inr [''adstock_lambda'' \<mapsto> beta_1_3, ''adstock_shape'' \<mapsto> beta_1_3]"

definition initialize_model_config ::
  "lagging_class \<Rightarrow> model_config option \<Rightarrow> py_error + model_config"
where
  "initialize_model_config cls model_config =
     (case model_config of
        Some mc \<Rightarrow>
          if \<not> list_all (\<lambda>key. mc key \<noteq> None) (REQUIRED_KEYS cls) then
            (case default_lagging_config cls of
               Inl e \<Rightarrow> Inl e
             | Inr d \<Rightarrow> Inr (mc ++ d))
          else Inr mc
      | None \<Rightarrow> default_lagging_config cls)"

section \<open>Reference definitions for the properties\<close>

text \<open>
  The data-model invariants an optimizer is built under: \<open>num_days\<close> and the adstock's
  \<open>l_max\<close> are not negative, and every channel carries both parameter subsets. Outside
  them \<open>objective\<close> raises (\<open>ValueError\<close> or \<open>KeyError\<close>).
\<close>

definition well_formed :: "budget_optimizer \<Rightarrow> bool" where
  "well_formed bo \<longleftrightarrow>
     0 \<le> num_days bo \<and> 0 \<le> l_max (adstock bo) \<and>
     list_all (\<lambda>(channel, params).
                 params ''adstock_params'' \<noteq> None \<and> params ''saturation_params'' \<noteq> None)
              (parameters bo)"

text \<open>
  The objective as the specification words it: per channel, the constant series of
  \<open>num_days\<close> copies of the spend followed by \<open>max_lag\<close> zeros, the two transforms in the
  configured order, each with its own parameter subset, the sum over time; then the
  negated sum over the channels.
\<close>

definition spec_spend_series :: "budget_optimizer \<Rightarrow> real \<Rightarrow> real list" where
  "spec_spend_series bo spend =
     replicate (nat (num_days bo)) spend @ replicate (nat (l_max (adstock bo))) 0"

definition spec_pipeline :: "budget_optimizer \<Rightarrow> channel_params \<Rightarrow> real list \<Rightarrow> real list" where
  "spec_pipeline bo params series =
     (if adstock_first bo then
        saturation_function (saturation bo) (the (params ''saturation_params''))
          (adstock_function (adstock bo) (the (params ''adstock_params'')) series)
      else
        adstock_function (adstock bo) (the (params ''adstock_params''))
          (saturation_function (saturation bo) (the (params ''saturation_params'')) series))"

definition spec_channel_total :: "budget_optimizer \<Rightarrow> channel_params \<Rightarrow> real \<Rightarrow> real" where
  "spec_channel_total bo params spend = sum_list (spec_pipeline bo params (spec_spend_series bo spend))"

definition spec_objective :: "budget_optimizer \<Rightarrow> real list \<Rightarrow> real" where
  "spec_objective bo budgets =
     - (\<Sum>i < length (parameters bo). spec_channel_total bo (snd (parameters bo ! i)) (budgets ! i))"

text \<open>
  Bounds and constraint as the specification resolves them: a supplied mapping is used
  per channel, \<open>(0, total_budget)\<close> stands in for a channel it lacks and for every channel
  when there is no mapping; the default constraint is ``the sum of all channel spends
  equals \<open>total_budget\<close>''; the warnings are one per default used.
\<close>

definition spec_resolved_bounds ::
  "real \<Rightarrow> (string \<rightharpoonup> real \<times> real) py_arg \<Rightarrow> string \<Rightarrow> real \<times> real" where
  "spec_resolved_bounds total_budget budget_bounds channel =
     (case budget_bounds of
        DictArg d \<Rightarrow> (case d channel of Some b \<Rightarrow> b | None \<Rightarrow> (0, total_budget))
      | _ \<Rightarrow> (0, total_budget))"

definition spec_default_constraint :: "real \<Rightarrow> constraint_dict" where
  "spec_default_constraint total_budget =
     \<lparr>ctype = ''eq'', cfun = (\<lambda>spends. sum_list spends - total_budget)\<rparr>"

definition spec_warnings :: "'a py_arg \<Rightarrow> 'b py_arg \<Rightarrow> string list" where
  "spec_warnings budget_bounds custom_constraints =
     (if budget_bounds = NoneArg then [bounds_warning] else []) @
     (if custom_constraints = NoneArg then [constraint_warning] else [])"

definition within_bounds :: "real \<Rightarrow> real \<times> real \<Rightarrow> bool" where
  "within_bounds v b \<longleftrightarrow> fst b \<le> v \<and> v \<le> snd b"

text \<open>
  The solver is external (SciPy's SLSQP). What the allocation result relies on is its
  contract: a result it reports as successful lies within the bounds it was given and
  satisfies an equality constraint it was given up to the tolerance \<open>tol\<close>.
\<close>

definition solver_contract :: "real \<Rightarrow> solver \<Rightarrow> bool" where
  "solver_contract tol minimize \<longleftrightarrow>
     (\<forall>f args result.
        minimize f args = Inr result \<and> res_success result \<longrightarrow>
          list_all2 within_bounds (res_x result) (arg_bounds args) \<and>
          (ctype (arg_constraints args) = ''eq'' \<longrightarrow>
             \<bar>cfun (arg_constraints args) (res_x result)\<bar> \<le> tol))"

text \<open>
  Properties of transforms: mapping every all-zero series to an all-zero series (origin
  pass-through), and linearity (homogeneous and additive).
\<close>

definition zero_preserving :: "transform_function \<Rightarrow> bool" where
  "zero_preserving f \<longleftrightarrow> (\<forall>p n. \<forall>v \<in> set (f p (replicate n 0)). v = 0)"

definition linear_transform :: "transform_function \<Rightarrow> bool" where
  "linear_transform f \<longleftrightarrow>
     (\<forall>p k xs. f p (map ((*) k) xs) = map ((*) k) (f p xs)) \<and>
     (\<forall>p xs ys. length xs = length ys \<longrightarrow>
        f p (map2 (+) xs ys) = map2 (+) (f p xs) (f p ys))"

section \<open>A worked instance\<close>

text \<open>
  Two channels, a geometric carry-over of lag one (weights \<open>1\<close> and \<open>alpha\<close>, normalised)
  as adstock, the saturation \<open>v / (lam + v)\<close>, two days of spend. The solver of the
  instance evaluates the objective at the initial guess and reports success exactly when
  that guess is feasible.
\<close>

fun geometric_carry_over :: "real \<Rightarrow> real \<Rightarrow> real list \<Rightarrow> real list" where
  "geometric_carry_over alpha prev [] = []"
| "geometric_carry_over alpha prev (x # xs) =
     (x + alpha * prev) / (1 + alpha) # geometric_carry_over alpha x xs"

definition example_adstock :: adstock_transformation where
  "example_adstock =
     \<lparr>l_max = 1, adstock_function = (\<lambda>p xs. geometric_carry_over (the (p ''alpha'')) 0 xs)\<rparr>"

definition example_saturation :: saturation_transformation where
  "example_saturation =
     \<lparr>saturation_function = (\<lambda>p xs. map (\<lambda>v. v / (the (p ''lam'') + v)) xs)\<rparr>"

definition example_parameters :: "(string \<times> channel_params) list" where
  "example_parameters =
     [(''tv'', [''adstock_params'' \<mapsto> [''alpha'' \<mapsto> 1 / 2],
               ''saturation_params'' \<mapsto> [''lam'' \<mapsto> 1]]),
      (''radio'', [''adstock_params'' \<mapsto> [''alpha'' \<mapsto> 1],
                  ''saturation_params'' \<mapsto> [''lam'' \<mapsto> 2]])]"

definition example_optimizer :: budget_optimizer where
  "example_optimizer =
     \<lparr>adstock = example_adstock, saturation = example_saturation, num_days = 2,
      parameters = example_parameters, adstock_first = True\<rparr>"

definition example_solver :: solver where
  "example_solver f args =
     (case f (arg_x0 args) of
        Inl e \<Rightarrow> Inl e
      | Inr v \<Rightarrow>
          Inr \<lparr>res_success =
                 (list_all2 within_bounds (arg_x0 args) (arg_bounds args) \<and>
                  cfun (arg_constraints args) (arg_x0 args) = 0),
               res_x = arg_x0 args, res_fun = v,
               res_message = ''Initial guess is not feasible''\<rparr>)"

section \<open>The objective in closed form\<close>

lemma channel_response_total:
  assumes "0 \<le> num_days bo" "0 \<le> l_max (adstock bo)"
    and "params ''adstock_params'' \<noteq> None" "params ''saturation_params'' \<noteq> None"
  shows "channel_response bo params budget = Inr (spec_channel_total bo params budget)"
  using assms
  by (auto simp: channel_response_def getitem_def np_full_def np_zeros_def first_transform_def
      second_transform_def spec_channel_total_def spec_pipeline_def spec_spend_series_def)

lemma objective_loop_sum:
  assumes "\<forall>(channel, params) \<in> set chans. \<forall>b. channel_response bo params b = Inr (g params b)"
    and "idx + length chans \<le> length budgets"
  shows "objective_loop bo budgets idx chans acc =
         Inr (acc + (\<Sum>i < length chans. g (snd (chans ! i)) (budgets ! (idx + i))))"
  using assms
proof (induction chans arbitrary: idx acc)
  case Nil
  then show ?case by simp
next
  case (Cons a chans)
  obtain channel params where a: "a = (channel, params)" by (cases a)
  have step: "channel_response bo params (budgets ! idx) = Inr (g params (budgets ! idx))"
    using Cons.prems(1) a by auto
  have rest: "objective_loop bo budgets (Suc idx) chans (acc + g params (budgets ! idx)) =
      Inr (acc + g params (budgets ! idx) +
           (\<Sum>i < length chans. g (snd (chans ! i)) (budgets ! (Suc idx + i))))"
    using Cons.prems by (intro Cons.IH) auto
  have "(\<Sum>i < length (a # chans). g (snd ((a # chans) ! i)) (budgets ! (idx + i))) =
        g params (budgets ! idx) + (\<Sum>i < length chans. g (snd (chans ! i)) (budgets ! (Suc idx + i)))"
    by (simp add: a sum.lessThan_Suc_shift del: sum.lessThan_Suc)
  then show ?case
    using Cons.prems(2) step rest by (simp add: a)
qed

lemma objective_closed_form:
  assumes "well_formed bo" and "length (parameters bo) \<le> length budgets"
  shows "objective bo budgets = Inr (spec_objective bo budgets)"
proof -
  have "\<forall>(channel, params) \<in> set (parameters bo).
          \<forall>b. channel_response bo params b = Inr (spec_channel_total bo params b)"
    using assms(1) by (auto simp: well_formed_def list_all_iff intro!: channel_response_total)
  then have "objective_loop bo budgets 0 (parameters bo) 0 =
      Inr (0 + (\<Sum>i < length (parameters bo).
                 spec_channel_total bo (snd (parameters bo ! i)) (budgets ! (0 + i))))"
    using assms(2) by (intro objective_loop_sum) auto
  then show ?thesis by (simp add: objective_def spec_objective_def)
qed

lemma sum_split_index:
  fixes f :: "nat \<Rightarrow> real"
  assumes "i < n"
  shows "(\<Sum>j < n. f j) = f i + (\<Sum>j \<in> {..<n} - {i}. f j)"
  using assms by (simp add: sum.remove [of "{..<n}" i f])

section \<open>The objective reads one spend per channel\<close>

lemma objective_loop_cong:
  assumes "idx + length chans \<le> length bs" and "idx + length chans \<le> length bs'"
    and "\<forall>j < length chans. bs ! (idx + j) = bs' ! (idx + j)"
  shows "objective_loop bo bs idx chans acc = objective_loop bo bs' idx chans acc"
  using assms
proof (induction chans arbitrary: idx acc)
  case Nil
  then show ?case by simp
next
  case (Cons a chans)
  obtain channel params where a: "a = (channel, params)" by (cases a)
  have here: "bs ! idx = bs' ! idx" using Cons.prems(3) by force
  have later: "\<forall>j < length chans. bs ! (Suc idx + j) = bs' ! (Suc idx + j)"
    using Cons.prems(3) by force
  have "objective_loop bo bs (Suc idx) chans acc' = objective_loop bo bs' (Suc idx) chans acc'"
    for acc'
    using Cons.prems(1,2) later by (intro Cons.IH) auto
  then show ?case using Cons.prems(1,2) here by (simp add: a split: sum.splits)
qed

lemma objective_loop_Inr_length:
  "objective_loop bo bs idx chans acc = Inr v \<Longrightarrow> idx \<le> length bs \<Longrightarrow>
   idx + length chans \<le> length bs"
proof (induction chans arbitrary: idx acc)
  case Nil
  then show ?case by simp
next
  case (Cons a chans)
  obtain channel params where a: "a = (channel, params)" by (cases a)
  from Cons.prems obtain r where "idx < length bs"
    and "objective_loop bo bs (Suc idx) chans (acc + r) = Inr v"
    by (auto simp: a split: if_splits sum.splits)
  then show ?case using Cons.IH [of "Suc idx" "acc + r"] by simp
qed

lemma objective_Inr_length:
  "objective bo budgets = Inr v \<Longrightarrow> length (parameters bo) \<le> length budgets"
  using objective_loop_Inr_length [of bo budgets 0 "parameters bo" 0]
  by (auto simp: objective_def split: sum.splits)

lemma objective_take:
  assumes "length (parameters bo) \<le> length budgets"
  shows "objective bo (take (length (parameters bo)) budgets) = objective bo budgets"
proof -
  have "objective_loop bo (take (length (parameters bo)) budgets) 0 (parameters bo) 0 =
        objective_loop bo budgets 0 (parameters bo) 0"
    using assms by (intro objective_loop_cong) auto
  then show ?thesis by (simp add: objective_def)
qed

lemma map_snd_zip_take: "map snd (zip xs ys) = take (length xs) ys"
proof (induction xs arbitrary: ys)
  case Nil
  show ?case by simp
next
  case (Cons a xs)
  show ?case by (cases ys) (simp_all add: Cons.IH)
qed

lemma objective_at_decoded:
  assumes "objective bo xs = Inr v"
  shows "objective bo (map snd (zip (map fst (parameters bo)) xs)) = Inr v"
  using objective_take [OF objective_Inr_length [OF assms]] assms
  by (simp add: map_snd_zip_take)

section \<open>Zero spend\<close>

lemma linear_zero_preserving:
  assumes "linear_transform f"
  shows "zero_preserving f"
  unfolding zero_preserving_def
proof (intro allI ballI)
  fix p n v
  assume v: "v \<in> set (f p (replicate n 0))"
  have "f p (map ((*) 0) (replicate n 0)) = map ((*) 0) (f p (replicate n 0))"
    using assms unfolding linear_transform_def by blast
  then have "f p (replicate n 0) = map ((*) 0) (f p (replicate n 0))" by simp
  then have "v \<in> set (map ((*) 0) (f p (replicate n 0)))" using v by simp
  then show "v = 0" by auto
qed

lemma zero_preserving_replicate:
  assumes "zero_preserving f"
  shows "f p (replicate n 0) = replicate (length (f p (replicate n 0))) 0"
  using assms unfolding zero_preserving_def by (intro replicate_eqI) auto

lemma zero_spend_total:
  assumes "zero_preserving (saturation_function (saturation bo))"
    and "zero_preserving (adstock_function (adstock bo))"
  shows "spec_channel_total bo params 0 = 0"
proof -
  define sat where "sat = saturation_function (saturation bo) (the (params ''saturation_params''))"
  define ads where "ads = adstock_function (adstock bo) (the (params ''adstock_params''))"
  have z: "spec_spend_series bo 0 =
           replicate (nat (num_days bo) + nat (l_max (adstock bo))) 0"
    by (simp add: spec_spend_series_def replicate_add)
  have s: "\<exists>m. sat (replicate n 0) = replicate m 0" for n
    unfolding sat_def using zero_preserving_replicate [OF assms(1)] by blast
  have a: "\<exists>m. ads (replicate n 0) = replicate m 0" for n
    unfolding ads_def using zero_preserving_replicate [OF assms(2)] by blast
  have "\<exists>m. sat (ads (replicate n 0)) = replicate m 0" for n
    using a [of n] s by auto
  moreover have "\<exists>m. ads (sat (replicate n 0)) = replicate m 0" for n
    using s [of n] a by auto
  ultimately have "\<exists>m. spec_pipeline bo params (spec_spend_series bo 0) = replicate m 0"
    unfolding z spec_pipeline_def sat_def ads_def by simp
  then show ?thesis by (auto simp: spec_channel_total_def sum_list_replicate)
qed

section \<open>The set-up of \<open>allocate_budget\<close>\<close>

lemma default_bounds_lookup:
  "(case map_of (map (\<lambda>(channel, _). (channel, (0, tb))) ps) c of
      Some (lo, hi) \<Rightarrow> (lo, hi) | None \<Rightarrow> (0, tb)) = (0::real, tb::real)"
  by (auto split: option.splits dest!: map_of_SomeD)

lemma allocate_budget_setup_ok:
  assumes "bb \<noteq> NonDictArg" and "cc \<noteq> NonDictArg" and "parameters bo \<noteq> []"
  shows "allocate_budget_setup bo tb bb cc =
    (spec_warnings bb cc,
     Inr \<lparr>arg_x0 = replicate (length (parameters bo))
                     (of_int \<lfloor>tb / real (length (parameters bo))\<rfloor>),
          arg_bounds = map (\<lambda>(channel, _). spec_resolved_bounds tb bb channel) (parameters bo),
          arg_constraints = (case cc of DictArg c \<Rightarrow> c | _ \<Rightarrow> spec_default_constraint tb),
          arg_method = ''SLSQP'',
          arg_options = \<lparr>ftol = 1 / 10 ^ 9, maxiter = 1000\<rparr>\<rparr>)"
proof -
  have n: "real (length (parameters bo)) \<noteq> 0" using assms(3) by simp
  show ?thesis
  proof (cases bb)
    case NoneArg
    show ?thesis
    proof (cases cc)
      case NoneArg
      then show ?thesis using \<open>bb = NoneArg\<close> n
        by (simp add: allocate_budget_setup_def Let_def py_floordiv_def spec_warnings_def
            spec_resolved_bounds_def spec_default_constraint_def default_bounds_lookup)
    next
      case (DictArg c)
      then show ?thesis using \<open>bb = NoneArg\<close> n
        by (simp add: allocate_budget_setup_def Let_def py_floordiv_def spec_warnings_def
            spec_resolved_bounds_def default_bounds_lookup)
    next
      case NonDictArg
      with assms(2) show ?thesis by simp
    qed
  next
    case (DictArg d)
    have b: "(\<lambda>(channel, _). case d channel of Some (lo, hi) \<Rightarrow> (lo, hi) | None \<Rightarrow> (0, tb)) =
             (\<lambda>(channel, _::channel_params). case d channel of Some b \<Rightarrow> b | None \<Rightarrow> (0, tb))"
      by (auto simp: fun_eq_iff split: option.splits)
    show ?thesis
    proof (cases cc)
      case NoneArg
      then show ?thesis using DictArg n
        by (simp add: allocate_budget_setup_def Let_def py_floordiv_def spec_warnings_def
            spec_resolved_bounds_def spec_default_constraint_def b)
    next
      case (DictArg c)
      then show ?thesis using \<open>bb = DictArg d\<close> n
        by (simp add: allocate_budget_setup_def Let_def py_floordiv_def spec_warnings_def
            spec_resolved_bounds_def b)
    next
      case NonDictArg
      with assms(2) show ?thesis by simp
    qed
  next
    case NonDictArg
    with assms(1) show ?thesis by simp
  qed
qed

lemma allocate_budget_setup_bounds_type_error:
  "allocate_budget_setup bo tb NonDictArg cc =
     ([], Inl (TypeError ''`budget_bounds` should be a dictionary.''))"
  by (simp add: allocate_budget_setup_def)

lemma allocate_budget_setup_constraints_type_error:
  "bb \<noteq> NonDictArg \<Longrightarrow>
   allocate_budget_setup bo tb bb NonDictArg =
     (if bb = NoneArg then [bounds_warning] else [],
      Inl (TypeError ''`custom_constraints` should be a dictionary.''))"
  by (cases bb) (simp_all add: allocate_budget_setup_def)

lemma allocate_budget_setup_no_channels:
  "bb \<noteq> NonDictArg \<Longrightarrow> cc \<noteq> NonDictArg \<Longrightarrow> parameters bo = [] \<Longrightarrow>
   allocate_budget_setup bo tb bb cc = (spec_warnings bb cc, Inl ZeroDivisionError)"
  by (cases bb; cases cc)
     (simp_all add: allocate_budget_setup_def Let_def py_floordiv_def spec_warnings_def)

lemma allocate_budget_setup_Inr_iff:
  "(\<exists>args. snd (allocate_budget_setup bo tb bb cc) = Inr args) \<longleftrightarrow>
     bb \<noteq> NonDictArg \<and> cc \<noteq> NonDictArg \<and> parameters bo \<noteq> []"
proof (cases "bb = NonDictArg")
  case True
  then show ?thesis by (simp add: allocate_budget_setup_bounds_type_error)
next
  case bb: False
  show ?thesis
  proof (cases "cc = NonDictArg")
    case True
    then show ?thesis using bb by (simp add: allocate_budget_setup_constraints_type_error)
  next
    case cc: False
    show ?thesis
    proof (cases "parameters bo = []")
      case True
      then show ?thesis using bb cc by (simp add: allocate_budget_setup_no_channels)
    next
      case False
      then show ?thesis using bb cc by (simp add: allocate_budget_setup_ok)
    qed
  qed
qed

lemma setup_InrD:
  assumes "allocate_budget_setup bo tb bb cc = (w, Inr args)"
  shows "bb \<noteq> NonDictArg" "cc \<noteq> NonDictArg" "parameters bo \<noteq> []"
  using allocate_budget_setup_Inr_iff [of bo tb bb cc] assms by auto

lemma warnings_distinct: "bounds_warning \<noteq> constraint_warning"
  by (simp add: bounds_warning_def constraint_warning_def)

section \<open>The outcome of \<open>allocate_budget\<close>\<close>

lemma allocate_budget_successE:
  assumes "allocate_budget bo minimize tb bb cc = (w, Inr (allocation, response))"
  obtains args result where
    "allocate_budget_setup bo tb bb cc = (w, Inr args)"
    "minimize (objective bo) args = Inr result"
    "res_success result"
    "allocation = zip (map fst (parameters bo)) (res_x result)"
    "response = - res_fun result"
  using assms
  by (auto simp: allocate_budget_def Let_def split: prod.splits sum.splits if_splits)

lemma allocate_budget_after_setup:
  assumes "allocate_budget_setup bo tb bb cc = (w, Inr args)"
    and "minimize (objective bo) args = Inr result"
  shows "allocate_budget bo minimize tb bb cc =
     (w, if res_success result
         then Inr (zip (map fst (parameters bo)) (res_x result), - res_fun result)
         else Inl (PyException (''Optimization failed: '' @ res_message result)))"
  using assms by (simp add: allocate_budget_def Let_def)

lemma allocate_budget_setup_error:
  assumes "allocate_budget_setup bo tb bb cc = (w, Inl e)"
  shows "allocate_budget bo minimize tb bb cc = (w, Inl e)"
  using assms by (simp add: allocate_budget_def)

section \<open>The default configurations\<close>

lemma default_has_required_keys:
  "default_lagging_config cls = Inr d \<Longrightarrow> key \<in> set (REQUIRED_KEYS cls) \<Longrightarrow> d key \<noteq> None"
  by (cases cls) auto

lemma default_defined:
  "cls \<noteq> BaseFunction \<Longrightarrow> \<exists>d. default_lagging_config cls = Inr d"
  by (cases cls) auto

section \<open>Facts about the worked instance\<close>

lemma example_well_formed: "well_formed example_optimizer"
  by (simp add: well_formed_def example_optimizer_def example_parameters_def example_adstock_def)

lemma example_parameters_simps:
  "parameters example_optimizer = example_parameters"
  "length example_parameters = 2"
  "map fst example_parameters = [''tv'', ''radio'']"
  "example_parameters \<noteq> []"
  by (simp_all add: example_optimizer_def example_parameters_def)

lemma example_objective_1_3: "objective example_optimizer [1, 3] = Inr (- (73 / 28))"
  by (simp add: objective_def example_optimizer_def example_parameters_def channel_response_def
      getitem_def np_full_def np_zeros_def first_transform_def second_transform_def
      example_adstock_def example_saturation_def eval_nat_numeral)

lemma example_objective_50_50:
  "objective example_optimizer [50, 50] = Inr (- (371866525 / 65147706))"
  by (simp add: objective_def example_optimizer_def example_parameters_def channel_response_def
      getitem_def np_full_def np_zeros_def first_transform_def second_transform_def
      example_adstock_def example_saturation_def eval_nat_numeral)

lemma example_solver_contract: "solver_contract 0 example_solver"
  by (auto simp: solver_contract_def example_solver_def split: sum.splits)

lemma example_setup_default:
  "allocate_budget_setup example_optimizer 100 NoneArg NoneArg =
     ([bounds_warning, constraint_warning],
      Inr \<lparr>arg_x0 = [50, 50], arg_bounds = [(0, 100), (0, 100)],
           arg_constraints = spec_default_constraint 100,
           arg_method = ''SLSQP'',
           arg_options = \<lparr>ftol = 1 / 10 ^ 9, maxiter = 1000\<rparr>\<rparr>)"
  by (simp add: allocate_budget_setup_ok example_parameters_simps spec_warnings_def
      spec_resolved_bounds_def example_parameters_def eval_nat_numeral)

lemma example_solver_default:
  "example_solver (objective example_optimizer)
     \<lparr>arg_x0 = [50, 50], arg_bounds = [(0, 100), (0, 100)],
      arg_constraints = spec_default_constraint 100,
      arg_method = ''SLSQP'',
      arg_options = \<lparr>ftol = 1 / 10 ^ 9, maxiter = 1000\<rparr>\<rparr> =
   Inr \<lparr>res_success = True, res_x = [50, 50], res_fun = - (371866525 / 65147706),
        res_message = ''Initial guess is not feasible''\<rparr>"
  by (simp add: example_solver_def example_objective_50_50 within_bounds_def
      spec_default_constraint_def)

lemma example_allocate_default:
  "allocate_budget example_optimizer example_solver 100 NoneArg NoneArg =
     ([bounds_warning, constraint_warning],
      Inr ([(''tv'', 50), (''radio'', 50)], 371866525 / 65147706))"
  by (simp add: allocate_budget_after_setup [where minimize = example_solver, OF example_setup_default example_solver_default]
      example_parameters_simps)

lemma example_setup_custom_bounds:
  "allocate_budget_setup example_optimizer 100 (DictArg [''tv'' \<mapsto> (10, 60)]) NoneArg =
     ([constraint_warning],
      Inr \<lparr>arg_x0 = [50, 50], arg_bounds = [(10, 60), (0, 100)],
           arg_constraints = spec_default_constraint 100,
           arg_method = ''SLSQP'',
           arg_options = \<lparr>ftol = 1 / 10 ^ 9, maxiter = 1000\<rparr>\<rparr>)"
  by (simp add: allocate_budget_setup_ok example_parameters_simps spec_warnings_def
      spec_resolved_bounds_def example_parameters_def eval_nat_numeral)

lemma example_setup_101:
  "allocate_budget_setup example_optimizer 101 NoneArg NoneArg =
     ([bounds_warning, constraint_warning],
      Inr \<lparr>arg_x0 = [50, 50], arg_bounds = [(0, 101), (0, 101)],
           arg_constraints = spec_default_constraint 101,
           arg_method = ''SLSQP'',
           arg_options = \<lparr>ftol = 1 / 10 ^ 9, maxiter = 1000\<rparr>\<rparr>)"
  by (simp add: allocate_budget_setup_ok example_parameters_simps spec_warnings_def
      spec_resolved_bounds_def example_parameters_def eval_nat_numeral)

lemma example_solver_101:
  "example_solver (objective example_optimizer)
     \<lparr>arg_x0 = [50, 50], arg_bounds = [(0, 101), (0, 101)],
      arg_constraints = spec_default_constraint 101,
      arg_method = ''SLSQP'',
      arg_options = \<lparr>ftol = 1 / 10 ^ 9, maxiter = 1000\<rparr>\<rparr> =
   Inr \<lparr>res_success = False, res_x = [50, 50], res_fun = - (371866525 / 65147706),
        res_message = ''Initial guess is not feasible''\<rparr>"
  by (simp add: example_solver_def example_objective_50_50 within_bounds_def
      spec_default_constraint_def)

lemma geometric_carry_over_scale:
  "geometric_carry_over alpha (k * prev) (map ((*) k) xs) =
   map ((*) k) (geometric_carry_over alpha prev xs)"
  by (induction xs arbitrary: prev) (simp_all add: algebra_simps add_divide_distrib)

lemma geometric_carry_over_add:
  "length xs = length ys \<Longrightarrow>
   geometric_carry_over alpha (p + q) (map2 (+) xs ys) =
   map2 (+) (geometric_carry_over alpha p xs) (geometric_carry_over alpha q ys)"
  by (induction xs ys arbitrary: p q rule: list_induct2)
     (simp_all add: algebra_simps add_divide_distrib)

lemma example_adstock_linear: "linear_transform (adstock_function example_adstock)"
  unfolding linear_transform_def example_adstock_def
  using geometric_carry_over_scale [of _ _ 0] geometric_carry_over_add [of _ _ _ 0 0]
  by simp

lemma example_saturation_zero: "zero_preserving (saturation_function example_saturation)"
  by (simp add: zero_preserving_def example_saturation_def)

section \<open>Claims\<close>

text \<open>
  Claim C1. For a well-formed optimizer (non-negative \<open>num_days\<close> and \<open>l_max\<close>, every
  channel carrying both \<open>adstock_params\<close> and \<open>saturation_params\<close>) and a spend vector
  with one scalar per channel, \<open>objective\<close> returns the negation of the sum over the
  channels, in the channel ordering, of the time-sum of the channel's transformed series:
  the constant series of \<open>num_days\<close> copies of the channel's spend followed by \<open>l_max\<close>
  zeros, sent through adstock then saturation when \<open>adstock_first\<close> holds and through
  saturation then adstock otherwise, each with the channel's own parameter subset.
\<close>

theorem C1_objective_negated_total_response:
  assumes "well_formed bo" and "length budgets = length (parameters bo)"
  shows "objective bo budgets = Inr (spec_objective bo budgets)"
  using assms by (simp add: objective_closed_form)

theorem C1_witness:
  "well_formed example_optimizer \<and>
   length [1, 3 :: real] = length (parameters example_optimizer) \<and>
   objective example_optimizer [1, 3] = Inr (spec_objective example_optimizer [1, 3]) \<and>
   objective example_optimizer [1, 3] = Inr (- (73 / 28))"
proof -
  have len: "length [1, 3 :: real] = length (parameters example_optimizer)"
    by (simp add: example_parameters_simps)
  show ?thesis
    using C1_objective_negated_total_response [OF example_well_formed len]
      example_well_formed len example_objective_1_3
    by simp
qed

text \<open>
  Claim C2. With no custom constraints, whenever \<open>allocate_budget\<close> returns an
  allocation, and the solver keeps its contract (a result reported as successful lies
  within the bounds it was given and satisfies the equality constraint it was given up to
  the tolerance \<open>tol\<close>), the allocated values sum to \<open>total_budget\<close> within \<open>tol\<close> and
  each channel's value lies within that channel's resolved bounds. This holds for every
  number of channels and every budget, so in particular for \<open>n \<ge> 1\<close> and
  \<open>total_budget > 0\<close>.
\<close>

theorem C2_allocation_feasible:
  assumes "solver_contract tol minimize"
    and "allocate_budget bo minimize total_budget budget_bounds NoneArg = (w, Inr (allocation, response))"
  shows "\<bar>sum_list (map snd allocation) - total_budget\<bar> \<le> tol \<and>
         (\<forall>(channel, v) \<in> set allocation.
            within_bounds v (spec_resolved_bounds total_budget budget_bounds channel))"
proof -
  from assms(2) obtain args result where
    su: "allocate_budget_setup bo total_budget budget_bounds NoneArg = (w, Inr args)"
    and run: "minimize (objective bo) args = Inr result"
    and ok: "res_success result"
    and alloc: "allocation = zip (map fst (parameters bo)) (res_x result)"
    by (rule allocate_budget_successE)
  note ne = setup_InrD [OF su]
  have args: "arg_bounds args =
        map (\<lambda>(channel, _). spec_resolved_bounds total_budget budget_bounds channel) (parameters bo)"
    "arg_constraints args = spec_default_constraint total_budget"
    using su allocate_budget_setup_ok [OF ne, of total_budget] by auto
  from assms(1) run ok have
    inb: "list_all2 within_bounds (res_x result) (arg_bounds args)"
    and eq: "ctype (arg_constraints args) = ''eq'' \<longrightarrow>
             \<bar>cfun (arg_constraints args) (res_x result)\<bar> \<le> tol"
    unfolding solver_contract_def by blast+
  have len: "length (res_x result) = length (parameters bo)"
    using list_all2_lengthD [OF inb] by (simp add: args)
  have "map snd allocation = res_x result"
    by (simp add: alloc map_snd_zip_take len)
  moreover have "\<bar>sum_list (res_x result) - total_budget\<bar> \<le> tol"
    using eq by (simp add: args spec_default_constraint_def)
  ultimately have sum: "\<bar>sum_list (map snd allocation) - total_budget\<bar> \<le> tol" by simp
  have "within_bounds v (spec_resolved_bounds total_budget budget_bounds channel)"
    if "(channel, v) \<in> set allocation" for channel v
  proof -
    from that obtain i where i: "i < length (parameters bo)"
      and c: "channel = fst (parameters bo ! i)" and v: "v = res_x result ! i"
      by (auto simp: alloc in_set_zip len)
    have "within_bounds (res_x result ! i) (arg_bounds args ! i)"
      using inb i len by (simp add: list_all2_nthD)
    moreover have "arg_bounds args ! i = spec_resolved_bounds total_budget budget_bounds channel"
      using i by (simp add: args c case_prod_beta)
    ultimately show ?thesis by (simp add: v)
  qed
  with sum show ?thesis by auto
qed

theorem C2_witness:
  "solver_contract 0 example_solver \<and>
   allocate_budget example_optimizer example_solver 100 NoneArg NoneArg =
     ([bounds_warning, constraint_warning],
      Inr ([(''tv'', 50), (''radio'', 50)], 371866525 / 65147706)) \<and>
   \<bar>sum_list (map snd [(''tv'', 50 :: real), (''radio'', 50)]) - 100\<bar> \<le> 0 \<and>
   within_bounds 50 (spec_resolved_bounds 100 NoneArg ''tv'') \<and>
   within_bounds 50 (spec_resolved_bounds 100 NoneArg ''radio'')"
  using C2_allocation_feasible [OF example_solver_contract example_allocate_default]
    example_solver_contract example_allocate_default
  by simp

text \<open>
  Claim C3. When \<open>budget_bounds\<close> or \<open>custom_constraints\<close> is neither \<open>None\<close> nor a
  dictionary, the set-up phase already raises \<open>TypeError\<close>, so no solver arguments are
  built, and \<open>allocate_budget\<close> raises that \<open>TypeError\<close> whatever the solver and the
  optimizer (and so the objective) are: neither occurs in the outcome.
\<close>

theorem C3_non_mapping_argument_raises_type_error:
  assumes "budget_bounds = NonDictArg \<or> custom_constraints = NonDictArg"
  shows "allocate_budget_setup bo total_budget budget_bounds custom_constraints =
           (if budget_bounds = NoneArg then [bounds_warning] else [],
            Inl (TypeError (if budget_bounds = NonDictArg
                            then ''`budget_bounds` should be a dictionary.''
                            else ''`custom_constraints` should be a dictionary.''))) \<and>
         allocate_budget bo minimize total_budget budget_bounds custom_constraints =
           (if budget_bounds = NoneArg then [bounds_warning] else [],
            Inl (TypeError (if budget_bounds = NonDictArg
                            then ''`budget_bounds` should be a dictionary.''
                            else ''`custom_constraints` should be a dictionary.'')))"
proof (cases "budget_bounds = NonDictArg")
  case True
  then show ?thesis
    by (simp add: allocate_budget_setup_bounds_type_error
        allocate_budget_setup_error [OF allocate_budget_setup_bounds_type_error])
next
  case False
  with assms have cc: "custom_constraints = NonDictArg" by simp
  show ?thesis
    using False allocate_budget_setup_constraints_type_error [OF False, of bo total_budget]
    by (simp add: cc allocate_budget_setup_error)
qed

theorem C3_witness:
  "((DictArg [''tv'' \<mapsto> (0, 10)] :: (string \<rightharpoonup> real \<times> real) py_arg) = NonDictArg \<or>
    (NonDictArg :: constraint_dict py_arg) = NonDictArg) \<and>
   allocate_budget example_optimizer example_solver 100 (DictArg [''tv'' \<mapsto> (0, 10)]) NonDictArg =
     ([], Inl (TypeError ''`custom_constraints` should be a dictionary.''))"
  using C3_non_mapping_argument_raises_type_error
    [of "DictArg [''tv'' \<mapsto> (0, 10)]" NonDictArg example_optimizer 100 example_solver]
  by simp

text \<open>
  Claim C4 (as amended). In every call of \<open>allocate_budget\<close>, with \<open>w\<close> the warnings it
  emits: the bounds warning is emitted exactly when no bounds mapping is supplied; the
  constraint warning is emitted exactly when no constraint set is supplied and the bounds
  argument is \<open>None\<close> or a dictionary (a bounds argument of another type raises the
  configuration error first). The solver is reached exactly when both arguments are
  \<open>None\<close> or dictionaries and there is at least one channel, and it then receives, per
  channel and in the channel ordering, the supplied interval verbatim, or
  \<open>(0, total_budget)\<close> for a channel the mapping lacks and for every channel when there is
  no mapping; and as constraint the supplied dictionary verbatim, or the equality
  constraint ``the sum of the spends equals \<open>total_budget\<close>'' when none is supplied.
\<close>

theorem C4_bounds_and_constraints_resolution:
  assumes "allocate_budget_setup bo total_budget budget_bounds custom_constraints = (w, r)"
  shows "fst (allocate_budget bo minimize total_budget budget_bounds custom_constraints) = w \<and>
         (bounds_warning \<in> set w \<longleftrightarrow> budget_bounds = NoneArg) \<and>
         (constraint_warning \<in> set w \<longleftrightarrow>
            custom_constraints = NoneArg \<and> budget_bounds \<noteq> NonDictArg) \<and>
         ((\<exists>args. r = Inr args) \<longleftrightarrow>
            budget_bounds \<noteq> NonDictArg \<and> custom_constraints \<noteq> NonDictArg \<and>
            parameters bo \<noteq> []) \<and>
         (\<forall>args. r = Inr args \<longrightarrow>
            arg_bounds args =
              map (\<lambda>(channel, _). spec_resolved_bounds total_budget budget_bounds channel)
                  (parameters bo) \<and>
            arg_constraints args =
              (case custom_constraints of
                 DictArg c \<Rightarrow> c
               | _ \<Rightarrow> spec_default_constraint total_budget))"
proof -
  have w_all: "fst (allocate_budget bo minimize total_budget budget_bounds custom_constraints) = w"
    using assms
    by (cases r) (auto simp: allocate_budget_def Let_def split: sum.splits)
  have iff: "(\<exists>args. r = Inr args) \<longleftrightarrow>
            budget_bounds \<noteq> NonDictArg \<and> custom_constraints \<noteq> NonDictArg \<and>
            parameters bo \<noteq> []"
    using allocate_budget_setup_Inr_iff [of bo total_budget budget_bounds custom_constraints] assms
    by simp
  have w: "(bounds_warning \<in> set w \<longleftrightarrow> budget_bounds = NoneArg) \<and>
         (constraint_warning \<in> set w \<longleftrightarrow>
            custom_constraints = NoneArg \<and> budget_bounds \<noteq> NonDictArg)"
  proof (cases "budget_bounds = NonDictArg")
    case True
    then show ?thesis using assms by (simp add: allocate_budget_setup_bounds_type_error)
  next
    case bb: False
    show ?thesis
    proof (cases "custom_constraints = NonDictArg")
      case True
      then show ?thesis
        using assms bb allocate_budget_setup_constraints_type_error [OF bb, of bo total_budget]
          warnings_distinct
        by (auto split: if_splits)
    next
      case cc: False
      have "w = spec_warnings budget_bounds custom_constraints"
      proof (cases "parameters bo = []")
        case True
        then show ?thesis
          using assms allocate_budget_setup_no_channels [OF bb cc True, of total_budget] by simp
      next
        case False
        then show ?thesis
          using assms allocate_budget_setup_ok [OF bb cc False, of total_budget] by simp
      qed
      then show ?thesis using bb cc warnings_distinct
        by (auto simp: spec_warnings_def split: if_splits)
    qed
  qed
  have args: "arg_bounds args =
              map (\<lambda>(channel, _). spec_resolved_bounds total_budget budget_bounds channel)
                  (parameters bo) \<and>
            arg_constraints args =
              (case custom_constraints of
                 DictArg c \<Rightarrow> c
               | _ \<Rightarrow> spec_default_constraint total_budget)" if "r = Inr args" for args
  proof -
    from that assms have su:
      "allocate_budget_setup bo total_budget budget_bounds custom_constraints = (w, Inr args)"
      by simp
    show ?thesis
      using su allocate_budget_setup_ok [OF setup_InrD [OF su], of total_budget] by auto
  qed
  from w_all w iff args show ?thesis by blast
qed

theorem C4_witness:
  "allocate_budget_setup example_optimizer 100 (DictArg [''tv'' \<mapsto> (10, 60)]) NoneArg =
     ([constraint_warning],
      Inr \<lparr>arg_x0 = [50, 50], arg_bounds = [(10, 60), (0, 100)],
           arg_constraints = spec_default_constraint 100,
           arg_method = ''SLSQP'',
           arg_options = \<lparr>ftol = 1 / 10 ^ 9, maxiter = 1000\<rparr>\<rparr>) \<and>
   fst (allocate_budget example_optimizer example_solver 100 (DictArg [''tv'' \<mapsto> (10, 60)]) NoneArg) =
     [constraint_warning] \<and>
   bounds_warning \<notin> set [constraint_warning] \<and>
   constraint_warning \<in> set [constraint_warning] \<and>
   [(10, 60), (0, 100)] =
     map (\<lambda>(channel, _). spec_resolved_bounds 100 (DictArg [''tv'' \<mapsto> (10, 60)]) channel)
       (parameters example_optimizer)"
  using C4_bounds_and_constraints_resolution [OF example_setup_custom_bounds, of example_solver]
    example_setup_custom_bounds
  by simp

theorem C4_counterexample:
  "\<not> ((NoneArg :: constraint_dict py_arg) = NoneArg \<longrightarrow>
       constraint_warning \<in>
         set (fst (allocate_budget example_optimizer example_solver 100 NonDictArg NoneArg)))"
  by (simp add: allocate_budget_setup_error [OF allocate_budget_setup_bounds_type_error])

text \<open>
  Claim C5. Once the solver has returned a result: if it reports success,
  \<open>allocate_budget\<close> returns the solution vector zipped with the channel keys in the
  channel ordering, paired with the negation of the solver's objective value, and then,
  if that value is the objective at the solution vector (as the solver reports it),
  evaluating the objective at the values of the returned allocation gives back the
  negation of the reported response; if it does not report success, \<open>allocate_budget\<close>
  raises an exception carrying the solver's message and returns no allocation.
\<close>

theorem C5_result_decoding_and_failure:
  assumes "allocate_budget_setup bo total_budget budget_bounds custom_constraints = (w, Inr args)"
    and "minimize (objective bo) args = Inr result"
  shows "(res_success result \<longrightarrow>
            allocate_budget bo minimize total_budget budget_bounds custom_constraints =
              (w, Inr (zip (map fst (parameters bo)) (res_x result), - res_fun result)) \<and>
            (objective bo (res_x result) = Inr (res_fun result) \<longrightarrow>
               objective bo (map snd (zip (map fst (parameters bo)) (res_x result))) =
                 Inr (- (- res_fun result)))) \<and>
         (\<not> res_success result \<longrightarrow>
            allocate_budget bo minimize total_budget budget_bounds custom_constraints =
              (w, Inl (PyException (''Optimization failed: '' @ res_message result))))"
  using allocate_budget_after_setup [where minimize = minimize, OF assms]
    objective_at_decoded [of bo "res_x result"]
  by simp

theorem C5_witness:
  "allocate_budget example_optimizer example_solver 100 NoneArg NoneArg =
     ([bounds_warning, constraint_warning],
      Inr ([(''tv'', 50), (''radio'', 50)], 371866525 / 65147706)) \<and>
   objective example_optimizer (map snd [(''tv'', 50 :: real), (''radio'', 50)]) =
     Inr (- (371866525 / 65147706)) \<and>
   allocate_budget example_optimizer example_solver 101 NoneArg NoneArg =
     ([bounds_warning, constraint_warning],
      Inl (PyException ''Optimization failed: Initial guess is not feasible''))"
  using C5_result_decoding_and_failure
      [where minimize = example_solver, OF example_setup_default example_solver_default]
    C5_result_decoding_and_failure
      [where minimize = example_solver, OF example_setup_101 example_solver_101]
    example_objective_50_50
  by (simp add: example_parameters_simps)

text \<open>
  Claim C6 (as amended). For every budget and every optimizer with at least one channel,
  the solver is reached when both optional arguments are \<open>None\<close> or dictionaries, and the
  initial guess gives each of the \<open>n\<close> channels the same value, the floor of
  \<open>total_budget / n\<close> (Python's \<open>//\<close>); the guess is \<open>total_budget / n\<close> per channel exactly
  when that quotient is an integer.
\<close>

theorem C6_initial_guess_floor_share:
  assumes "parameters bo \<noteq> []"
    and "budget_bounds \<noteq> NonDictArg" and "custom_constraints \<noteq> NonDictArg"
  shows "\<exists>args. snd (allocate_budget_setup bo total_budget budget_bounds custom_constraints) =
                  Inr args \<and>
           arg_x0 args =
             replicate (length (parameters bo))
               (of_int \<lfloor>total_budget / real (length (parameters bo))\<rfloor>) \<and>
           (arg_x0 args =
              replicate (length (parameters bo)) (total_budget / real (length (parameters bo)))
            \<longleftrightarrow> total_budget / real (length (parameters bo)) \<in> \<int>)"
  using assms(1)
  by (auto simp: allocate_budget_setup_ok [OF assms(2,3,1)] replicate_eq_replicate Ints_def)

theorem C6_witness:
  "parameters example_optimizer \<noteq> [] \<and>
   (NoneArg :: (string \<rightharpoonup> real \<times> real) py_arg) \<noteq> NonDictArg \<and>
   (NoneArg :: constraint_dict py_arg) \<noteq> NonDictArg \<and>
   snd (allocate_budget_setup example_optimizer 100 NoneArg NoneArg) =
     Inr \<lparr>arg_x0 = [50, 50], arg_bounds = [(0, 100), (0, 100)],
          arg_constraints = spec_default_constraint 100,
          arg_method = ''SLSQP'',
          arg_options = \<lparr>ftol = 1 / 10 ^ 9, maxiter = 1000\<rparr>\<rparr> \<and>
   [50, 50] = replicate (length (parameters example_optimizer))
                (real_of_int \<lfloor>100 / real (length (parameters example_optimizer))\<rfloor>)"
  using C6_initial_guess_floor_share [of example_optimizer NoneArg NoneArg 100]
    example_setup_default
  by (simp add: example_parameters_simps eval_nat_numeral)

theorem C6_counterexample:
  "map_sum id arg_x0
     (snd (allocate_budget_setup example_optimizer (201 / 2) NoneArg NoneArg)) = Inr [50, 50] \<and>
   map_sum id arg_x0
     (snd (allocate_budget_setup example_optimizer (201 / 2) NoneArg NoneArg)) \<noteq>
     Inr (replicate (length (parameters example_optimizer))
            ((201 / 2) / real (length (parameters example_optimizer))))"
  by (simp add: allocate_budget_setup_ok example_parameters_simps eval_nat_numeral)

text \<open>
  Claim C7 (as amended). Whenever \<open>allocate_budget\<close> reaches the solver, it calls it with
  the method \<open>SLSQP\<close>, the tolerance \<open>ftol = 1e-9\<close> and the iteration cap
  \<open>maxiter = 1000\<close>: the two values are fixed in the call and no argument of
  \<open>allocate_budget\<close> or field of the optimizer changes them.
\<close>

theorem C7_solver_options_fixed:
  assumes "allocate_budget_setup bo total_budget budget_bounds custom_constraints = (w, Inr args)"
  shows "ftol (arg_options args) = 1 / 10 ^ 9 \<and> maxiter (arg_options args) = 1000 \<and>
         arg_method args = ''SLSQP''"
  using assms allocate_budget_setup_ok [OF setup_InrD [OF assms], of total_budget] by auto

theorem C7_witness:
  "allocate_budget_setup example_optimizer 100 NoneArg NoneArg =
     ([bounds_warning, constraint_warning],
      Inr \<lparr>arg_x0 = [50, 50], arg_bounds = [(0, 100), (0, 100)],
           arg_constraints = spec_default_constraint 100,
           arg_method = ''SLSQP'',
           arg_options = \<lparr>ftol = 1 / 10 ^ 9, maxiter = 1000\<rparr>\<rparr>) \<and>
   ftol \<lparr>ftol = 1 / 10 ^ 9, maxiter = 1000\<rparr> = 1 / 10 ^ 9 \<and>
   maxiter \<lparr>ftol = 1 / 10 ^ 9, maxiter = 1000\<rparr> = 1000"
  using C7_solver_options_fixed [OF example_setup_default] example_setup_default
  by simp

theorem C7_counterexample:
  "\<not> (\<exists>bo total_budget budget_bounds custom_constraints w args.
        allocate_budget_setup bo total_budget budget_bounds custom_constraints = (w, Inr args) \<and>
        arg_options args \<noteq> \<lparr>ftol = 1 / 10 ^ 9, maxiter = 1000\<rparr>)"
proof
  assume "\<exists>bo total_budget budget_bounds custom_constraints w args.
        allocate_budget_setup bo total_budget budget_bounds custom_constraints = (w, Inr args) \<and>
        arg_options args \<noteq> \<lparr>ftol = 1 / 10 ^ 9, maxiter = 1000\<rparr>"
  then obtain bo tb bb cc w args where
    su: "allocate_budget_setup bo tb bb cc = (w, Inr args)"
    and ne: "arg_options args \<noteq> \<lparr>ftol = 1 / 10 ^ 9, maxiter = 1000\<rparr>"
    by blast
  from su allocate_budget_setup_ok [OF setup_InrD [OF su], of tb]
  have "arg_options args = \<lparr>ftol = 1 / 10 ^ 9, maxiter = 1000\<rparr>" by auto
  with ne show False by simp
qed

text \<open>
  Claim C8. One channel ordering, the order of the keys of \<open>parameters\<close>, is used
  throughout: for every index \<open>i\<close>, \<open>objective\<close> sends \<open>budgets[i]\<close> through the pipeline
  with the parameters of the \<open>i\<close>-th channel, the \<open>i\<close>-th entry of the bounds handed to the
  solver is the resolved interval of the \<open>i\<close>-th channel, and the \<open>i\<close>-th entry of the
  returned allocation pairs the key of the \<open>i\<close>-th channel with the \<open>i\<close>-th component of
  the solution vector.
\<close>

theorem C8_channel_ordering_consistent:
  assumes "well_formed bo" and "length budgets = length (parameters bo)"
    and "allocate_budget_setup bo total_budget budget_bounds custom_constraints = (w, Inr args)"
    and "minimize (objective bo) args = Inr result" and "res_success result"
    and "i < length (parameters bo)" and "i < length (res_x result)"
  shows "objective bo budgets =
           Inr (- (spec_channel_total bo (snd (parameters bo ! i)) (budgets ! i) +
                   (\<Sum>j \<in> {..<length (parameters bo)} - {i}.
                      spec_channel_total bo (snd (parameters bo ! j)) (budgets ! j)))) \<and>
         arg_bounds args ! i =
           spec_resolved_bounds total_budget budget_bounds (fst (parameters bo ! i)) \<and>
         (\<exists>allocation response.
            allocate_budget bo minimize total_budget budget_bounds custom_constraints =
              (w, Inr (allocation, response)) \<and>
            allocation ! i = (fst (parameters bo ! i), res_x result ! i))"
proof -
  have obj: "objective bo budgets =
           Inr (- (spec_channel_total bo (snd (parameters bo ! i)) (budgets ! i) +
                   (\<Sum>j \<in> {..<length (parameters bo)} - {i}.
                      spec_channel_total bo (snd (parameters bo ! j)) (budgets ! j))))"
    using objective_closed_form [OF assms(1), of budgets] assms(2)
      sum_split_index [OF assms(6),
        of "\<lambda>j. spec_channel_total bo (snd (parameters bo ! j)) (budgets ! j)"]
    by (simp add: spec_objective_def)
  have bnd: "arg_bounds args ! i =
           spec_resolved_bounds total_budget budget_bounds (fst (parameters bo ! i))"
    using assms(3,6) allocate_budget_setup_ok [OF setup_InrD [OF assms(3)], of total_budget]
    by (auto simp: case_prod_beta)
  have dec: "zip (map fst (parameters bo)) (res_x result) ! i =
             (fst (parameters bo ! i), res_x result ! i)"
    using assms(6,7) by simp
  show ?thesis
    using obj bnd dec allocate_budget_after_setup [where minimize = minimize, OF assms(3,4)] assms(5)
    by simp
qed

theorem C8_witness:
  "well_formed example_optimizer \<and>
   length [1, 3 :: real] = length (parameters example_optimizer) \<and>
   (1 :: nat) < length (parameters example_optimizer) \<and>
   objective example_optimizer [1, 3] =
     Inr (- (spec_channel_total example_optimizer (snd (parameters example_optimizer ! 1)) 3 +
             (\<Sum>j \<in> {..<length (parameters example_optimizer)} - {1}.
                spec_channel_total example_optimizer (snd (parameters example_optimizer ! j))
                  ([1, 3] ! j)))) \<and>
   [(0, 100), (0, 100)] ! 1 =
     spec_resolved_bounds 100 NoneArg (fst (parameters example_optimizer ! 1)) \<and>
   (\<exists>allocation response.
      allocate_budget example_optimizer example_solver 100 NoneArg NoneArg =
        ([bounds_warning, constraint_warning], Inr (allocation, response)) \<and>
      allocation ! 1 = (''radio'', 50))"
proof -
  have len: "length [1, 3 :: real] = length (parameters example_optimizer)"
    by (simp add: example_parameters_simps)
  have i: "(1 :: nat) < length (parameters example_optimizer)"
    by (simp add: example_parameters_simps)
  have ix: "(1 :: nat) < length (res_x \<lparr>res_success = True, res_x = [50, 50],
      res_fun = - (371866525 / 65147706), res_message = ''Initial guess is not feasible''\<rparr>)"
    by simp
  have key: "fst (parameters example_optimizer ! 1) = ''radio''"
    by (simp add: example_parameters_simps example_parameters_def)
  show ?thesis
    using C8_channel_ordering_consistent [where minimize = example_solver,
        OF example_well_formed len example_setup_default example_solver_default _ i ix]
      example_well_formed len i key
    by simp
qed

text \<open>
  Claim C9. When the saturation maps all-zero series to all-zero series and the adstock
  is linear, a channel whose spend is exactly \<open>0\<close> adds exactly \<open>0\<close> to the total response:
  its loop iteration yields \<open>0\<close> and the objective is the negated sum over the other
  channels. In particular the objective at the all-zero spend vector is \<open>0\<close>.
\<close>

theorem C9_zero_spend_zero_contribution:
  assumes "well_formed bo" and "length budgets = length (parameters bo)"
    and "zero_preserving (saturation_function (saturation bo))"
    and "linear_transform (adstock_function (adstock bo))"
  shows "(\<forall>i < length (parameters bo). budgets ! i = 0 \<longrightarrow>
            channel_response bo (snd (parameters bo ! i)) (budgets ! i) = Inr 0 \<and>
            objective bo budgets =
              Inr (- (\<Sum>j \<in> {..<length (parameters bo)} - {i}.
                        spec_channel_total bo (snd (parameters bo ! j)) (budgets ! j)))) \<and>
         objective bo (replicate (length (parameters bo)) 0) = Inr 0"
proof -
  note zt = zero_spend_total [OF assms(3) linear_zero_preserving [OF assms(4)]]
  have each: "channel_response bo (snd (parameters bo ! i)) b =
              Inr (spec_channel_total bo (snd (parameters bo ! i)) b)"
    if "i < length (parameters bo)" for i b
  proof -
    have "parameters bo ! i \<in> set (parameters bo)" using that by simp
    then show ?thesis
      using assms(1)
      by (auto simp: well_formed_def list_all_iff case_prod_beta intro!: channel_response_total)
  qed
  have one: "channel_response bo (snd (parameters bo ! i)) (budgets ! i) = Inr 0 \<and>
            objective bo budgets =
              Inr (- (\<Sum>j \<in> {..<length (parameters bo)} - {i}.
                        spec_channel_total bo (snd (parameters bo ! j)) (budgets ! j)))"
    if i: "i < length (parameters bo)" and z: "budgets ! i = 0" for i
    using each [OF i, of 0] objective_closed_form [OF assms(1), of budgets] assms(2)
      sum_split_index [OF i,
        of "\<lambda>j. spec_channel_total bo (snd (parameters bo ! j)) (budgets ! j)"]
    by (simp add: z zt spec_objective_def)
  have all: "objective bo (replicate (length (parameters bo)) 0) = Inr 0"
    using objective_closed_form [OF assms(1), of "replicate (length (parameters bo)) 0"]
    by (simp add: spec_objective_def zt)
  from one all show ?thesis by blast
qed

theorem C9_witness:
  "well_formed example_optimizer \<and>
   length [0, 3 :: real] = length (parameters example_optimizer) \<and>
   zero_preserving (saturation_function (saturation example_optimizer)) \<and>
   linear_transform (adstock_function (adstock example_optimizer)) \<and>
   channel_response example_optimizer (snd (parameters example_optimizer ! 0)) 0 = Inr 0 \<and>
   objective example_optimizer [0, 3] =
     Inr (- (\<Sum>j \<in> {..<length (parameters example_optimizer)} - {0}.
               spec_channel_total example_optimizer (snd (parameters example_optimizer ! j))
                 ([0, 3] ! j))) \<and>
   objective example_optimizer [0, 3] = Inr (- (51 / 35)) \<and>
   objective example_optimizer [0, 0] = Inr 0"
proof -
  have len: "length [0, 3 :: real] = length (parameters example_optimizer)"
    by (simp add: example_parameters_simps)
  have sat: "zero_preserving (saturation_function (saturation example_optimizer))"
    using example_saturation_zero by (simp add: example_optimizer_def)
  have ads: "linear_transform (adstock_function (adstock example_optimizer))"
    using example_adstock_linear by (simp add: example_optimizer_def)
  have val: "objective example_optimizer [0, 3] = Inr (- (51 / 35))"
    by (simp add: objective_def example_optimizer_def example_parameters_def channel_response_def
      getitem_def np_full_def np_zeros_def first_transform_def second_transform_def
      example_adstock_def example_saturation_def eval_nat_numeral)
  have rep: "replicate (length (parameters example_optimizer)) (0 :: real) = [0, 0]"
    by (simp add: example_parameters_simps eval_nat_numeral)
  have i: "0 < length (parameters example_optimizer) \<and> [0, 3 :: real] ! 0 = 0"
    by (simp add: example_parameters_simps)
  note c9 = C9_zero_spend_zero_contribution [OF example_well_formed len sat ads]
  from c9 i have
    "channel_response example_optimizer (snd (parameters example_optimizer ! 0)) ([0, 3] ! 0) =
       Inr 0 \<and>
     objective example_optimizer [0, 3] =
       Inr (- (\<Sum>j \<in> {..<length (parameters example_optimizer)} - {0}.
               spec_channel_total example_optimizer (snd (parameters example_optimizer ! j))
                 ([0, 3] ! j)))"
    by blast
  moreover from c9 rep have "objective example_optimizer [0, 0] = Inr 0" by simp
  ultimately show ?thesis
    using example_well_formed len sat ads val by simp
qed

text \<open>
  Claim C10. For each of the three adstock component classes and every \<open>model_config\<close>
  (\<open>None\<close> or a dictionary), \<open>initialize_model_config\<close> returns a dictionary that holds
  every key of the class's \<open>REQUIRED_KEYS\<close>. A supplied dictionary that holds all required
  keys is returned unchanged; a supplied dictionary that lacks one is merged with the
  class's default configuration, whose value wins for every key the default holds
  (the other keys keep the caller's value); \<open>None\<close> gives the default configuration.
\<close>

theorem C10_initialize_model_config:
  assumes "cls \<noteq> BaseFunction"
  shows "\<exists>cfg d.
           initialize_model_config cls model_config = Inr cfg \<and>
           default_lagging_config cls = Inr d \<and>
           (\<forall>key \<in> set (REQUIRED_KEYS cls). cfg key \<noteq> None) \<and>
           (model_config = None \<longrightarrow> cfg = d) \<and>
           (\<forall>mc. model_config = Some mc \<and> (\<forall>key \<in> set (REQUIRED_KEYS cls). mc key \<noteq> None)
                 \<longrightarrow> cfg = mc) \<and>
           (\<forall>mc. model_config = Some mc \<and> \<not> (\<forall>key \<in> set (REQUIRED_KEYS cls). mc key \<noteq> None)
                 \<longrightarrow> (\<forall>key. d key \<noteq> None \<longrightarrow> cfg key = d key) \<and>
                     (\<forall>key. d key = None \<longrightarrow> cfg key = mc key))"
proof -
  from default_defined [OF assms] obtain d where d: "default_lagging_config cls = Inr d" ..
  note req = default_has_required_keys [OF d]
  show ?thesis
  proof (cases model_config)
    case None
    then show ?thesis using d req by (simp add: initialize_model_config_def)
  next
    case (Some mc)
    show ?thesis
    proof (cases "\<forall>key \<in> set (REQUIRED_KEYS cls). mc key \<noteq> None")
      case True
      then show ?thesis using Some d
        by (auto simp: initialize_model_config_def list_all_iff)
    next
      case False
      have k1: "(mc ++ d) key \<noteq> None" if "key \<in> set (REQUIRED_KEYS cls)" for key
        using req [OF that] by (cases "d key") (simp_all add: map_add_def)
      have k2: "(mc ++ d) key = d key" if "d key \<noteq> None" for key
        using that by (cases "d key") (simp_all add: map_add_def)
      have k3: "(mc ++ d) key = mc key" if "d key = None" for key
        using that by (simp add: map_add_def)
      have init: "initialize_model_config cls model_config = Inr (mc ++ d)"
        using Some d False by (simp add: initialize_model_config_def list_all_iff)
      have c3: "\<forall>key \<in> set (REQUIRED_KEYS cls). (mc ++ d) key \<noteq> None"
        using k1 by (intro ballI)
      have c4: "model_config = None \<longrightarrow> mc ++ d = d"
        using Some by simp
      have c5: "\<forall>mc'. model_config = Some mc' \<and>
                  (\<forall>key \<in> set (REQUIRED_KEYS cls). mc' key \<noteq> None) \<longrightarrow> mc ++ d = mc'"
        using Some False by auto
      have c6: "\<forall>mc'. model_config = Some mc' \<and>
                  \<not> (\<forall>key \<in> set (REQUIRED_KEYS cls). mc' key \<noteq> None) \<longrightarrow>
                  (\<forall>key. d key \<noteq> None \<longrightarrow> (mc ++ d) key = d key) \<and>
                  (\<forall>key. d key = None \<longrightarrow> (mc ++ d) key = mc' key)"
        using Some k2 k3 by auto
      show ?thesis
        by (intro exI [of _ "mc ++ d"] exI [of _ d] conjI) (fact init d c3 c4 c5 c6)+
    qed
  qed
qed

theorem C10_witness:
  "GeometricAdstockComponent \<noteq> BaseFunction \<and>
   initialize_model_config GeometricAdstockComponent
     (Some [''adstock_beta'' \<mapsto> PyFloat (1 / 2)]) =
     Inr [''adstock_beta'' \<mapsto> PyFloat (1 / 2), ''adstock_alpha'' \<mapsto> beta_1_3] \<and>
   initialize_model_config GeometricAdstockComponent
     (Some [''adstock_alpha'' \<mapsto> PyFloat (1 / 2)]) =
     Inr [''adstock_alpha'' \<mapsto> PyFloat (1 / 2)] \<and>
   initialize_model_config WeibullPDFAdstockComponent
     (Some [''adstock_lambda'' \<mapsto> PyFloat (1 / 2)]) =
     Inr [''adstock_lambda'' \<mapsto> beta_1_3, ''adstock_shape'' \<mapsto> beta_1_3]"
proof -
  have ne: "GeometricAdstockComponent \<noteq> BaseFunction" by simp
  have ne': "WeibullPDFAdstockComponent \<noteq> BaseFunction" by simp
  have a: "initialize_model_config GeometricAdstockComponent
     (Some [''adstock_beta'' \<mapsto> PyFloat (1 / 2)]) =
     Inr [''adstock_beta'' \<mapsto> PyFloat (1 / 2), ''adstock_alpha'' \<mapsto> beta_1_3]"
    by (simp add: initialize_model_config_def)
  have c: "initialize_model_config WeibullPDFAdstockComponent
     (Some [''adstock_lambda'' \<mapsto> PyFloat (1 / 2)]) =
     Inr [''adstock_lambda'' \<mapsto> beta_1_3, ''adstock_shape'' \<mapsto> beta_1_3]"
    by (simp add: initialize_model_config_def fun_eq_iff map_add_def)
  from C10_initialize_model_config
    [OF ne, of "Some [''adstock_alpha'' \<mapsto> PyFloat (1 / 2)]"]
  have b: "initialize_model_config GeometricAdstockComponent
     (Some [''adstock_alpha'' \<mapsto> PyFloat (1 / 2)]) =
     Inr [''adstock_alpha'' \<mapsto> PyFloat (1 / 2)]"
    by auto
  from ne a b c show ?thesis by simp
qed

end
